theory Spec2Isabelle
  imports Complex_Main "HOL-Library.Sublist"
begin

section \<open>Python values used by the evaluation scripts\<close>

text \<open>
  The two scripts \<^verbatim>\<open>enhanced-rag-evaluation.py\<close> and \<^verbatim>\<open>ragas-evaluation.py\<close> work on
  Python strings, lists, dictionaries and floats.

  \<^item> A Python \<^verbatim>\<open>str\<close> is modelled as a \<open>string\<close>, one \<open>char\<close> per code point, for
    the code points below 256 (ASCII and Latin-1); \<open>length\<close> is Python's \<^verbatim>\<open>len\<close>.
  \<^item> A Python \<^verbatim>\<open>float\<close> is modelled as a \<open>real\<close> and its arithmetic as exact:
    rounding, infinities and NaN are not represented. The one place where rounding
    decides a stated value is the aggregation; there numpy's functions are modelled
    twice, in exact and in float64 arithmetic.
  \<^item> An exception is a value of \<open>py_error\<close>; a computation that can raise returns
    \<open>py_error + 'a\<close>, with \<open>Inl\<close> for the raised exception.
\<close>

datatype py_error = ZeroDivisionError | KeyError string

text \<open>\<^verbatim>\<open>a / b\<close> on two integers (here always lengths, so naturals).\<close>

definition int_truediv :: "nat \<Rightarrow> nat \<Rightarrow> py_error + real" where
  "int_truediv a b = (if b = 0 then Inl ZeroDivisionError else Inr (real a / real b))"

text \<open>\<^verbatim>\<open>a / b\<close> on floats.\<close>

definition float_truediv :: "real \<Rightarrow> real \<Rightarrow> py_error + real" where
  "float_truediv a b = (if b = 0 then Inl ZeroDivisionError else Inr (a / b))"

subsection \<open>\<^verbatim>\<open>str.lower\<close>, \<^verbatim>\<open>str.split\<close>, \<^verbatim>\<open>str.join\<close> and \<^verbatim>\<open>in\<close>\<close>

text \<open>
  \<^verbatim>\<open>str.lower()\<close> on code points below 256: the letters A to Z and the Latin-1 capitals
  U+00C0 to U+00DE (U+00D7, the multiplication sign, apart) move up by 32.
\<close>

definition lower_char :: "char \<Rightarrow> char" where
  "lower_char c =
     (let n = (of_char c :: nat)
      in if (65 \<le> n \<and> n \<le> 90) \<or> (192 \<le> n \<and> n \<le> 222 \<and> n \<noteq> 215)
         then char_of (n + 32) else c)"

definition lower :: "string \<Rightarrow> string" where
  "lower s = map lower_char s"

text \<open>
  The characters on which \<^verbatim>\<open>str.split()\<close> without argument splits, below 256:
  tab to carriage return, the four separators U+001C to U+001F, the space, U+0085
  and U+00A0.
\<close>

definition isspace :: "char \<Rightarrow> bool" where
  "isspace c =
     (let n = (of_char c :: nat)
      in (9 \<le> n \<and> n \<le> 13) \<or> (28 \<le> n \<and> n \<le> 32) \<or> n = 133 \<or> n = 160)"

text \<open>
  \<^verbatim>\<open>s.split()\<close>: the maximal runs of non-whitespace characters, in order. The first
  argument of \<open>split_from\<close> is the current run, reversed.
\<close>

fun split_from :: "string \<Rightarrow> string \<Rightarrow> string list" where
  "split_from cur [] = (if cur = [] then [] else [rev cur])"
| "split_from cur (c # cs) =
     (if isspace c
      then (if cur = [] then split_from [] cs else rev cur # split_from [] cs)
      else split_from (c # cur) cs)"

definition split :: "string \<Rightarrow> string list" where
  "split s = split_from [] s"

text \<open>\<^verbatim>\<open>sep.join(xs)\<close>.\<close>

fun join :: "string \<Rightarrow> string list \<Rightarrow> string" where
  "join sep [] = []"
| "join sep [x] = x"
| "join sep (x # y # ys) = x @ sep @ join sep (y # ys)"

text \<open>\<^verbatim>\<open>term in s\<close> on strings: \<open>term\<close> occurs in \<open>s\<close> as a contiguous block.\<close>

fun str_contains :: "string \<Rightarrow> string \<Rightarrow> bool" where
  "str_contains s [] = (s = [])"
| "str_contains s (c # cs) = (prefix s (c # cs) \<or> str_contains s cs)"

section \<open>The custom metrics of \<^verbatim>\<open>EnhancedRAGEvaluator.calculate_custom_metrics\<close>\<close>

text \<open>
  Each of the five metrics is one block of \<^verbatim>\<open>calculate_custom_metrics\<close>
  (\<^verbatim>\<open>enhanced-rag-evaluation.py\<close>, lines 182 to 221); each block is a function here, named
  after the key it stores, and \<open>calculate_custom_metrics\<close> runs them in the source's order.
  A Python \<^verbatim>\<open>set\<close> of words is a \<open>string set\<close>, \<^verbatim>\<open>len\<close> of it is \<open>card\<close>. A string or a
  list in a condition is true when it is not empty.
\<close>

text \<open>\<^verbatim>\<open>min(len(answer) / 200, 1.0) if answer else 0.0\<close>\<close>

definition response_completeness :: "string \<Rightarrow> real" where
  "response_completeness answer =
     (if answer \<noteq> [] then min (real (length answer) / 200) 1 else 0)"

definition context_utilization :: "string list \<Rightarrow> string \<Rightarrow> py_error + real" where
  "context_utilization contexts answer =
     (if contexts \<noteq> [] \<and> answer \<noteq> [] then
        (let context_words = set (split (lower (join '' '' contexts)));
             answer_words = set (split (lower answer))
         in if context_words \<noteq> {}
            then int_truediv (card (context_words \<inter> answer_words)) (card context_words)
            else Inr 0)
      else Inr 0)"

definition response_efficiency :: "real \<Rightarrow> py_error + real" where
  "response_efficiency response_time =
     (if response_time > 0 then
        (if 2 \<le> response_time \<and> response_time \<le> 8 then Inr 1
         else if response_time < 2 then float_truediv response_time 2
         else (case float_truediv 8 response_time of
                 Inl e \<Rightarrow> Inl e
               | Inr q \<Rightarrow> Inr (max (1 / 10) q)))
      else Inr 0)"

definition specific_terms :: "string list" where
  "specific_terms =
     [''$'', ''%'', ''minutes'', ''days'', ''years'', ''score'', ''income'', ''equity'']"

text \<open>
  \<^verbatim>\<open>sum(1 for term in specific_terms if term in answer.lower()) / len(specific_terms)\<close>
\<close>

definition answer_specificity :: "string \<Rightarrow> py_error + real" where
  "answer_specificity answer =
     int_truediv (length (filter (\<lambda>term. str_contains term (lower answer)) specific_terms))
                 (length specific_terms)"

text \<open>
  The last block has no test of \<open>gt_words\<close> before the division, unlike the block of
  \<open>context_utilization\<close>.
\<close>

definition ground_truth_coverage :: "string \<Rightarrow> string \<Rightarrow> py_error + real" where
  "ground_truth_coverage ground_truth answer =
     (if ground_truth \<noteq> [] \<and> answer \<noteq> [] then
        (let gt_words = set (split (lower ground_truth));
             answer_words = set (split (lower answer))
         in int_truediv (card (gt_words \<inter> answer_words)) (card gt_words))
      else Inr 0)"

type_synonym metrics = "string \<rightharpoonup> real"

definition calculate_custom_metrics ::
  "string \<Rightarrow> string \<Rightarrow> string \<Rightarrow> string list \<Rightarrow> real \<Rightarrow> py_error + metrics" where
  "calculate_custom_metrics question answer ground_truth contexts response_time =
     (let metrics = Map.empty;
          metrics = metrics(''response_completeness'' \<mapsto> response_completeness answer)
      in case context_utilization contexts answer of
           Inl e \<Rightarrow> Inl e
         | Inr cu \<Rightarrow>
      (let metrics = metrics(''context_utilization'' \<mapsto> cu)
       in case response_efficiency response_time of
            Inl e \<Rightarrow> Inl e
          | Inr re \<Rightarrow>
      (let metrics = metrics(''response_efficiency'' \<mapsto> re)
       in case answer_specificity answer of
            Inl e \<Rightarrow> Inl e
          | Inr sp \<Rightarrow>
      (let metrics = metrics(''answer_specificity'' \<mapsto> sp)
       in case ground_truth_coverage ground_truth answer of
            Inl e \<Rightarrow> Inl e
          | Inr gc \<Rightarrow> Inr (metrics(''ground_truth_coverage'' \<mapsto> gc))))))"

section \<open>Letter grades\<close>

text \<open>\<^verbatim>\<open>EnhancedRAGEvaluator.get_score_grade\<close> (\<^verbatim>\<open>enhanced-rag-evaluation.py\<close>, line 532).\<close>

definition get_score_grade :: "real \<Rightarrow> string" where
  "get_score_grade score =
     (if score \<ge> 9 / 10 then ''A+''
      else if score \<ge> 8 / 10 then ''A''
      else if score \<ge> 7 / 10 then ''B''
      else if score \<ge> 6 / 10 then ''C''
      else if score \<ge> 5 / 10 then ''D''
      else ''F'')"

text \<open>\<^verbatim>\<open>RAGASEvaluator.get_overall_grade\<close> (\<^verbatim>\<open>ragas-evaluation.py\<close>, line 325).\<close>

definition get_overall_grade :: "real \<Rightarrow> string" where
  "get_overall_grade score =
     (if score \<ge> 9 / 10 then ''A+''
      else if score \<ge> 8 / 10 then ''A''
      else if score \<ge> 7 / 10 then ''B''
      else if score \<ge> 6 / 10 then ''C''
      else if score \<ge> 5 / 10 then ''D''
      else ''F'')"

section \<open>The evaluation loops\<close>




text \<open>The four columns handed to the RAGAS library.\<close>

record ragas_data =
  rd_question :: "string list"
  rd_answer :: "string list"
  rd_contexts :: "string list list"
  rd_ground_truth :: "string list"

text \<open>An element of \<^verbatim>\<open>detailed_results\<close>.\<close>

record detailed_result =
  dr_question :: string
  dr_category :: string
  dr_answer :: string
  dr_ground_truth :: string
  dr_contexts :: "string list"
  dr_source_count :: nat
  dr_response_time :: real
  dr_custom_metrics :: metrics


definition empty_ragas_data :: ragas_data where
  "empty_ragas_data =
     \<lparr>rd_question = [], rd_answer = [], rd_contexts = [], rd_ground_truth = []\<rparr>"





section \<open>Aggregation of the custom metrics\<close>

text \<open>
  A value returned by numpy: a float, or NaN (what \<^verbatim>\<open>np.mean\<close> and \<^verbatim>\<open>np.std\<close> return on
  the empty list, with a warning and no exception).
\<close>

datatype np_float = Finite real | NaN

text \<open>
  Modelled from the spec: \<^verbatim>\<open>np.mean\<close> belongs to numpy, which is not part of the
  repository. The spec asks for the arithmetic mean of the values; this is it in exact
  arithmetic.
\<close>

definition np_mean :: "real list \<Rightarrow> np_float" where
  "np_mean xs = (if xs = [] then NaN else Finite (sum_list xs / real (length xs)))"

text \<open>
  Modelled from the spec: \<^verbatim>\<open>np.std\<close> belongs to numpy, which is not part of the
  repository. The spec asks for the population standard deviation; the call passes no
  \<^verbatim>\<open>ddof\<close>, and numpy's default \<^verbatim>\<open>ddof=0\<close> is the square root of the mean of the squared
  absolute deviations from the mean. This is it in exact arithmetic.
\<close>

definition np_std :: "real list \<Rightarrow> np_float" where
  "np_std xs =
     (if xs = [] then NaN
      else (let m = sum_list xs / real (length xs)
            in Finite (sqrt (sum_list (map (\<lambda>x. \<bar>x - m\<bar> ^ 2) xs) / real (length xs)))))"

text \<open>
  \<^verbatim>\<open>[result['custom_metrics'][metric_name] for result in detailed_results]\<close>: a missing
  key raises \<^verbatim>\<open>KeyError\<close>.
\<close>

fun metric_values :: "string \<Rightarrow> detailed_result list \<Rightarrow> py_error + real list" where
  "metric_values metric_name [] = Inr []"
| "metric_values metric_name (result # results) =
     (case dr_custom_metrics result metric_name of
        None \<Rightarrow> Inl (KeyError metric_name)
      | Some v \<Rightarrow>
          (case metric_values metric_name results of
             Inl e \<Rightarrow> Inl e
           | Inr vs \<Rightarrow> Inr (v # vs)))"

definition metric_names :: "string list" where
  "metric_names =
     [''response_completeness'', ''context_utilization'', ''response_efficiency'',
      ''answer_specificity'', ''ground_truth_coverage'']"

text \<open>
  The loop over the metric names in \<^verbatim>\<open>run_enhanced_evaluation\<close>
  (\<^verbatim>\<open>enhanced-rag-evaluation.py\<close>, lines 294 to 298). \<^verbatim>\<open>np.mean\<close> and \<^verbatim>\<open>np.std\<close> are
  functions of numpy, not of the repository: they are the parameters \<open>mean\<close> and \<open>std\<close>.
\<close>

fun custom_results_loop ::
  "(real list \<Rightarrow> np_float) \<Rightarrow> (real list \<Rightarrow> np_float) \<Rightarrow> string list \<Rightarrow>
   detailed_result list \<Rightarrow> (string \<rightharpoonup> np_float) \<Rightarrow> py_error + (string \<rightharpoonup> np_float)" where
  "custom_results_loop mean std [] detailed_results custom_results = Inr custom_results"
| "custom_results_loop mean std (metric_name # names) detailed_results custom_results =
     (case metric_values metric_name detailed_results of
        Inl e \<Rightarrow> Inl e
      | Inr vals \<Rightarrow>
          custom_results_loop mean std names detailed_results
            (custom_results(''avg_'' @ metric_name \<mapsto> mean vals,
                            ''std_'' @ metric_name \<mapsto> std vals)))"

text \<open>
  \<^verbatim>\<open>run_enhanced_evaluation\<close>: the parameter \<open>evaluate\<close> stands for the call of the RAGAS
  library and the conversion \<^verbatim>\<open>dict(ragas_results)\<close> of its result; any exception inside
  the \<^verbatim>\<open>try\<close> block makes the function return \<^verbatim>\<open>None\<close>. Of the returned dictionary the
  keys \<^verbatim>\<open>ragas_results\<close>, \<^verbatim>\<open>custom_metrics\<close> and \<^verbatim>\<open>detailed_results\<close> are modelled;
  \<^verbatim>\<open>category_analysis\<close> and \<^verbatim>\<open>evaluation_timestamp\<close> are computed from the same list,
  change none of the three and raise nothing on a list of this type.
\<close>

record 'e evaluation_results =
  er_ragas_results :: 'e
  er_custom_metrics :: "string \<rightharpoonup> np_float"
  er_detailed_results :: "detailed_result list"

definition run_enhanced_evaluation ::
  "(real list \<Rightarrow> np_float) \<Rightarrow> (real list \<Rightarrow> np_float) \<Rightarrow>
   (ragas_data \<Rightarrow> py_error + 'e) \<Rightarrow> ragas_data \<Rightarrow> detailed_result list \<Rightarrow>
   'e evaluation_results option" where
  "run_enhanced_evaluation mean std evaluate dataset detailed_results =
     (case evaluate dataset of
        Inl e \<Rightarrow> None
      | Inr ragas_results \<Rightarrow>
          (case custom_results_loop mean std metric_names detailed_results Map.empty of
             Inl e \<Rightarrow> None
           | Inr custom_results \<Rightarrow>
               Some \<lparr>er_ragas_results = ragas_results,
                     er_custom_metrics = custom_results,
                     er_detailed_results = detailed_results\<rparr>))"

text \<open>
  \<^verbatim>\<open>results['custom_metrics'].get(key)\<close> on what \<^verbatim>\<open>run_enhanced_evaluation\<close> returned, as
  \<^verbatim>\<open>generate_comprehensive_report\<close> reads it.
\<close>

definition custom_metric_of :: "'e evaluation_results option \<Rightarrow> string \<Rightarrow> np_float option" where
  "custom_metric_of results key =
     (case results of None \<Rightarrow> None | Some res \<Rightarrow> er_custom_metrics res key)"

subsection \<open>numpy in float64 arithmetic\<close>

text \<open>
  Modelled from the spec: the arithmetic of Python's and numpy's floats, which is not
  code of the repository. The metric values are IEEE 754 binary64 numbers: a finite one
  is a real \<open>n * 2 ^ (e - 52)\<close> with an integer \<open>n\<close> of at most 53 bits, and every
  operation returns the exact result rounded to the nearest such number, a tie going to
  the even \<open>n\<close>. Overflow to infinity is not represented.

  \<open>round_half_even\<close> rounds to the nearest integer, a tie to the even one.
\<close>

definition round_half_even :: "real \<Rightarrow> int" where
  "round_half_even x =
     (let n = \<lfloor>x\<rfloor>; r = x - of_int n
      in if r < 1 / 2 then n else if 1 / 2 < r then n + 1 else if even n then n else n + 1)"

text \<open>Modelled from the spec: the power \<open>2 ^ e\<close> of binary64, for an integer \<open>e\<close>.\<close>

definition pow2 :: "int \<Rightarrow> real" where
  "pow2 e = (if 0 \<le> e then 2 ^ nat e else 1 / 2 ^ nat (- e))"

text \<open>
  Modelled from the spec: the binary exponent of \<open>x > 0\<close>, the \<open>e\<close> with
  \<open>2 ^ e \<le> x < 2 ^ (e + 1)\<close>, found by halving or doubling \<open>x\<close> until it lies between 1
  and 2 (binary64 has fewer than 2200 exponents), and never below -1022, the exponent of
  the subnormal numbers.
\<close>

fun float64_exponent_from :: "nat \<Rightarrow> real \<Rightarrow> int \<Rightarrow> int" where
  "float64_exponent_from 0 x e = e"
| "float64_exponent_from (Suc fuel) x e =
     (if 2 \<le> x then float64_exponent_from fuel (x / 2) (e + 1)
      else if x < 1 then float64_exponent_from fuel (x * 2) (e - 1)
      else e)"

definition float64_exponent :: "real \<Rightarrow> int" where
  "float64_exponent x = max (- 1022) (float64_exponent_from 2200 \<bar>x\<bar> 0)"

text \<open>Modelled from the spec: the binary64 number nearest to \<open>x\<close>.\<close>

definition float64_round :: "real \<Rightarrow> real" where
  "float64_round x =
     (if x = 0 then 0
      else (let ulp = pow2 (float64_exponent x - 52)
            in of_int (round_half_even (x / ulp)) * ulp))"

text \<open>Modelled from the spec: the sum of two binary64 numbers, rounded.\<close>

definition float64_add :: "real \<Rightarrow> real \<Rightarrow> real" where
  "float64_add a b = float64_round (a + b)"

text \<open>
  Modelled from the spec: \<^verbatim>\<open>np.mean\<close> on binary64 values: the sum, then the division by
  the count. numpy adds fewer than eight values one after the other, from the left;
  longer lists are added in another order, which this function does not follow.
\<close>

definition np_mean_float64 :: "real list \<Rightarrow> np_float" where
  "np_mean_float64 xs =
     (if xs = [] then NaN
      else Finite (float64_round (foldl float64_add 0 xs / real (length xs))))"

text \<open>
  Modelled from the spec: the variance that \<^verbatim>\<open>np.std\<close> takes the root of, on binary64
  values and with numpy's default \<^verbatim>\<open>ddof=0\<close>: the mean as above, the deviations from it,
  their squares and the mean of the squares, each operation rounded.
\<close>

definition np_var_float64 :: "real list \<Rightarrow> real" where
  "np_var_float64 xs =
     (let n = real (length xs);
          arrmean = float64_round (foldl float64_add 0 xs / n);
          x = map (\<lambda>v. float64_round (v - arrmean)) xs;
          x = map (\<lambda>v. float64_round (v * v)) x
      in float64_round (foldl float64_add 0 x / n))"

text \<open>Modelled from the spec: \<^verbatim>\<open>np.std\<close> on binary64 values, the rounded square root.\<close>

definition np_std_float64 :: "real list \<Rightarrow> np_float" where
  "np_std_float64 xs =
     (if xs = [] then NaN else Finite (float64_round (sqrt (np_var_float64 xs))))"

section \<open>Notions of the specification\<close>

text \<open>The distinct lowercased whitespace tokens of a string.\<close>

definition distinct_lowercased_words :: "string \<Rightarrow> string set" where
  "distinct_lowercased_words s = set (split (lower s))"

text \<open>The arithmetic mean and the population standard deviation of a list of values.\<close>

definition arithmetic_mean :: "real list \<Rightarrow> real" where
  "arithmetic_mean xs = (\<Sum>x\<leftarrow>xs. x) / real (length xs)"

definition population_std :: "real list \<Rightarrow> real" where
  "population_std xs =
     sqrt ((\<Sum>x\<leftarrow>xs. (x - arithmetic_mean xs) ^ 2) / real (length xs))"

text \<open>The values of one metric over a list of detailed results that all have it.\<close>

definition metric_column :: "string \<Rightarrow> detailed_result list \<Rightarrow> real list" where
  "metric_column key results = map (\<lambda>r. the (dr_custom_metrics r key)) results"

section \<open>Test data\<close>



text \<open>A detailed result whose five metrics all have the value \<open>v\<close>.\<close>

definition uniform_result :: "real \<Rightarrow> detailed_result" where
  "uniform_result v =
     \<lparr>dr_question = ''Q1'', dr_category = ''general'', dr_answer = ''Approval in 5 minutes'',
      dr_ground_truth = ''As fast as 5 minutes'', dr_contexts = [''Fast approval''],
      dr_source_count = 0, dr_response_time = 3,
      dr_custom_metrics =
        [''response_completeness'' \<mapsto> v, ''context_utilization'' \<mapsto> v,
         ''response_efficiency'' \<mapsto> v, ''answer_specificity'' \<mapsto> v,
         ''ground_truth_coverage'' \<mapsto> v]\<rparr>"

text \<open>A detailed result with the five metrics given one by one.\<close>

definition sample_result :: "real \<Rightarrow> real \<Rightarrow> real \<Rightarrow> real \<Rightarrow> real \<Rightarrow> detailed_result" where
  "sample_result rc cu re sp gc =
     \<lparr>dr_question = ''Q1'', dr_category = ''general'', dr_answer = ''Approval in 5 minutes'',
      dr_ground_truth = ''As fast as 5 minutes'', dr_contexts = [''Fast approval''],
      dr_source_count = 0, dr_response_time = 3,
      dr_custom_metrics =
        [''response_completeness'' \<mapsto> rc, ''context_utilization'' \<mapsto> cu,
         ''response_efficiency'' \<mapsto> re, ''answer_specificity'' \<mapsto> sp,
         ''ground_truth_coverage'' \<mapsto> gc]\<rparr>"

text \<open>A stand-in for a RAGAS library that returns.\<close>

definition ragas_ok :: "ragas_data \<Rightarrow> py_error + unit" where
  "ragas_ok dataset = Inr ()"

section \<open>What each block of \<^verbatim>\<open>calculate_custom_metrics\<close> computes\<close>

lemma context_utilization_eq:
  "context_utilization contexts answer =
     Inr (if contexts = [] \<or> answer = [] \<or> split (lower (join '' '' contexts)) = [] then 0
          else real (card (set (split (lower (join '' '' contexts))) \<inter> set (split (lower answer))))
               / real (card (set (split (lower (join '' '' contexts))))))"
  by (simp add: context_utilization_def Let_def int_truediv_def)

lemma response_efficiency_eq:
  "response_efficiency t =
     Inr (if t \<le> 0 then 0 else if t < 2 then t / 2 else if t \<le> 8 then 1
          else max (1 / 10) (8 / t))"
  by (simp add: response_efficiency_def float_truediv_def)

lemma answer_specificity_eq:
  "answer_specificity answer =
     Inr (real (length (filter (\<lambda>term. str_contains term (lower answer)) specific_terms)) / 8)"
  by (simp add: answer_specificity_def int_truediv_def specific_terms_def)

lemma ground_truth_coverage_eq:
  "ground_truth_coverage ground_truth answer =
     (if ground_truth \<noteq> [] \<and> answer \<noteq> [] \<and> split (lower ground_truth) = []
      then Inl ZeroDivisionError
      else Inr (if ground_truth = [] \<or> answer = [] then 0
                else real (card (set (split (lower ground_truth)) \<inter> set (split (lower answer))))
                     / real (card (set (split (lower ground_truth))))))"
  by (simp add: ground_truth_coverage_def Let_def int_truediv_def)

lemma str_contains_sublist: "str_contains s t \<longleftrightarrow> sublist s t"
  by (induction t) (simp_all add: sublist_Cons_right)

lemma card_inter_ratio:
  "finite A \<Longrightarrow>
     0 \<le> real (card (A \<inter> B)) / real (card A) \<and> real (card (A \<inter> B)) / real (card A) \<le> 1"
  by (auto simp: card_mono divide_le_eq_1 card_gt_0_iff)

text \<open>
  Only the last block can raise, so the function returns the five entries exactly when
  \<open>ground_truth_coverage\<close> returns.
\<close>

lemma calculate_custom_metrics_eq:
  "calculate_custom_metrics question answer ground_truth contexts response_time =
     (case ground_truth_coverage ground_truth answer of
        Inl e \<Rightarrow> Inl e
      | Inr gc \<Rightarrow>
          Inr [''response_completeness'' \<mapsto> response_completeness answer,
               ''context_utilization'' \<mapsto> projr (context_utilization contexts answer),
               ''response_efficiency'' \<mapsto> projr (response_efficiency response_time),
               ''answer_specificity'' \<mapsto> projr (answer_specificity answer),
               ''ground_truth_coverage'' \<mapsto> gc])"
  unfolding calculate_custom_metrics_def Let_def
  by (simp add: context_utilization_eq response_efficiency_eq answer_specificity_eq
           split: sum.splits)

lemma calculate_custom_metrics_raises:
  "calculate_custom_metrics question answer ground_truth contexts response_time = Inl e \<longleftrightarrow>
     e = ZeroDivisionError \<and> ground_truth \<noteq> [] \<and> answer \<noteq> [] \<and> split (lower ground_truth) = []"
  by (auto simp: calculate_custom_metrics_eq ground_truth_coverage_eq split: if_splits)

text \<open>
  A string has no word exactly when all its characters are whitespace, and lowercasing
  keeps whitespace: the function raises exactly on a non-empty answer with a non-empty
  ground truth made of whitespace only.
\<close>

lemma split_from_Nil_iff:
  "split_from cur s = [] \<longleftrightarrow> cur = [] \<and> (\<forall>c\<in>set s. isspace c)"
  by (induction s arbitrary: cur) auto

lemma split_Nil_iff: "split s = [] \<longleftrightarrow> (\<forall>c\<in>set s. isspace c)"
  by (simp add: split_def split_from_Nil_iff)

lemma isspace_lower_char: "isspace (lower_char c) = isspace c"
  unfolding isspace_def lower_char_def Let_def
  by auto

lemma calculate_custom_metrics_raises_blank:
  "calculate_custom_metrics question answer ground_truth contexts response_time = Inl e \<longleftrightarrow>
     e = ZeroDivisionError \<and> ground_truth \<noteq> [] \<and> answer \<noteq> []
     \<and> (\<forall>c\<in>set ground_truth. isspace c)"
  by (simp add: calculate_custom_metrics_raises split_Nil_iff lower_def isspace_lower_char)

lemma split_lower_blank: "split (lower '' '') = []"
  by code_simp

text \<open>
  A whitespace character ends a word, so the words of two strings with a space between
  them are the words of the first followed by the words of the second, and the words of
  \<^verbatim>\<open>' '.join(contexts)\<close> are the words of all the contexts.
\<close>

lemma split_from_append_space:
  "isspace c \<Longrightarrow> split_from cur (x @ c # y) = split_from cur x @ split_from [] y"
  by (induction x arbitrary: cur) auto

lemma split_append_space: "isspace c \<Longrightarrow> split (x @ c # y) = split x @ split y"
  by (simp add: split_def split_from_append_space)

lemma isspace_space: "isspace (lower_char CHR '' '')"
  by code_simp

lemma distinct_lowercased_words_join:
  "distinct_lowercased_words (join '' '' contexts) = (\<Union>c\<in>set contexts. distinct_lowercased_words c)"
proof (induction "'' ''" contexts rule: join.induct)
  case 1
  show ?case by (simp add: distinct_lowercased_words_def lower_def split_def)
next
  case (2 x)
  show ?case by simp
next
  case (3 x y ys)
  have "split (lower (x @ '' '' @ join '' '' (y # ys)))
        = split (lower x) @ split (lower (join '' '' (y # ys)))"
    using split_append_space [OF isspace_space] by (simp add: lower_def)
  with 3 show ?case
    by (simp add: distinct_lowercased_words_def Un_commute)
qed

section \<open>The claims about \<^verbatim>\<open>calculate_custom_metrics\<close>\<close>

text \<open>
  Claim C1 says that \<^verbatim>\<open>calculate_custom_metrics\<close> raises on no input and that
  \<^verbatim>\<open>ground_truth_coverage\<close> is 0.0 when the ground truth has no word. The code divides by
  \<^verbatim>\<open>len(gt_words)\<close> without testing it: on the answer \<^verbatim>\<open>"hi"\<close> and the ground truth
  \<^verbatim>\<open>" "\<close> (one space, a non-empty string without a word) the call raises
  \<^verbatim>\<open>ZeroDivisionError\<close>.
\<close>

theorem calculate_custom_metrics_blank_ground_truth:
  "calculate_custom_metrics ''q'' ''hi'' '' '' [] 1 = Inl ZeroDivisionError"
  by (simp add: calculate_custom_metrics_eq ground_truth_coverage_eq split_lower_blank)

text \<open>
  Claim C2: whenever \<^verbatim>\<open>calculate_custom_metrics\<close> returns, the returned dictionary has
  exactly the five keys \<^verbatim>\<open>response_completeness\<close>, \<^verbatim>\<open>context_utilization\<close>,
  \<^verbatim>\<open>response_efficiency\<close>, \<^verbatim>\<open>answer_specificity\<close> and \<^verbatim>\<open>ground_truth_coverage\<close>, and
  every value in it lies between 0 and 1, both included.
\<close>

theorem calculate_custom_metrics_keys_range:
  assumes "calculate_custom_metrics question answer ground_truth contexts response_time = Inr m"
  shows "dom m = {''response_completeness'', ''context_utilization'', ''response_efficiency'',
                  ''answer_specificity'', ''ground_truth_coverage''}
         \<and> (\<forall>k v. m k = Some v \<longrightarrow> 0 \<le> v \<and> v \<le> 1)"
proof -
  obtain gc where gc: "ground_truth_coverage ground_truth answer = Inr gc"
    and m: "m = [''response_completeness'' \<mapsto> response_completeness answer,
               ''context_utilization'' \<mapsto> projr (context_utilization contexts answer),
               ''response_efficiency'' \<mapsto> projr (response_efficiency response_time),
               ''answer_specificity'' \<mapsto> projr (answer_specificity answer),
               ''ground_truth_coverage'' \<mapsto> gc]"
    using assms by (auto simp: calculate_custom_metrics_eq split: sum.splits)
  have rc: "0 \<le> response_completeness answer \<and> response_completeness answer \<le> 1"
    by (simp add: response_completeness_def)
  have cu: "0 \<le> projr (context_utilization contexts answer)
            \<and> projr (context_utilization contexts answer) \<le> 1"
    using card_inter_ratio [of "set (split (lower (join '' '' contexts)))"
                               "set (split (lower answer))"]
    by (simp add: context_utilization_eq)
  have re: "0 \<le> projr (response_efficiency response_time)
            \<and> projr (response_efficiency response_time) \<le> 1"
    by (auto simp: response_efficiency_eq max_def)
  have "length (filter (\<lambda>term. str_contains term (lower answer)) specific_terms)
          \<le> length specific_terms"
    by (rule length_filter_le)
  then have sp: "0 \<le> projr (answer_specificity answer) \<and> projr (answer_specificity answer) \<le> 1"
    by (simp add: answer_specificity_eq specific_terms_def)
  have g: "0 \<le> gc \<and> gc \<le> 1"
    using gc card_inter_ratio [of "set (split (lower ground_truth))" "set (split (lower answer))"]
    by (auto simp: ground_truth_coverage_eq split: if_splits)
  have "dom m = {''response_completeness'', ''context_utilization'', ''response_efficiency'',
                  ''answer_specificity'', ''ground_truth_coverage''}"
    unfolding m by auto
  moreover have "\<forall>k v. m k = Some v \<longrightarrow> 0 \<le> v \<and> v \<le> 1"
    unfolding m using rc cu re sp g by (auto split: if_splits)
  ultimately show ?thesis by blast
qed

theorem calculate_custom_metrics_keys_range_witness:
  "calculate_custom_metrics ''How fast?'' ''Approval in 5 minutes'' ''As fast as 5 minutes''
       [''Fast approval''] 3
     = Inr [''response_completeness'' \<mapsto> 21 / 200, ''context_utilization'' \<mapsto> 1 / 2,
            ''response_efficiency'' \<mapsto> 1, ''answer_specificity'' \<mapsto> 1 / 8,
            ''ground_truth_coverage'' \<mapsto> 1 / 2]
   \<and> dom [''response_completeness'' \<mapsto> 21 / 200 :: real, ''context_utilization'' \<mapsto> 1 / 2,
            ''response_efficiency'' \<mapsto> 1, ''answer_specificity'' \<mapsto> 1 / 8,
            ''ground_truth_coverage'' \<mapsto> 1 / 2]
       = {''response_completeness'', ''context_utilization'', ''response_efficiency'',
          ''answer_specificity'', ''ground_truth_coverage''}
   \<and> (0::real) \<le> 1 / 2 \<and> (1::real) / 2 \<le> 1"
proof -
  have a: "ground_truth_coverage ''As fast as 5 minutes'' ''Approval in 5 minutes'' = Inr (1 / 2)"
    by code_simp
  have b: "context_utilization [''Fast approval''] ''Approval in 5 minutes'' = Inr (1 / 2)"
    by code_simp
  have c: "answer_specificity ''Approval in 5 minutes'' = Inr (1 / 8)"
    by code_simp
  have d: "response_efficiency 3 = Inr 1"
    by (simp add: response_efficiency_eq)
  have e: "response_completeness ''Approval in 5 minutes'' = 21 / 200"
    by (simp add: response_completeness_def)
  have eq: "calculate_custom_metrics ''How fast?'' ''Approval in 5 minutes''
              ''As fast as 5 minutes'' [''Fast approval''] 3
     = Inr [''response_completeness'' \<mapsto> 21 / 200, ''context_utilization'' \<mapsto> 1 / 2,
            ''response_efficiency'' \<mapsto> 1, ''answer_specificity'' \<mapsto> 1 / 8,
            ''ground_truth_coverage'' \<mapsto> 1 / 2]"
    unfolding calculate_custom_metrics_eq a b c d e by simp
  have dm: "dom [''response_completeness'' \<mapsto> 21 / 200 :: real,
                 ''context_utilization'' \<mapsto> 1 / 2,
                 ''response_efficiency'' \<mapsto> 1, ''answer_specificity'' \<mapsto> 1 / 8,
                 ''ground_truth_coverage'' \<mapsto> 1 / 2]
       = {''response_completeness'', ''context_utilization'', ''response_efficiency'',
          ''answer_specificity'', ''ground_truth_coverage''}"
    by (rule calculate_custom_metrics_keys_range [OF eq, THEN conjunct1])
  have bd: "(0::real) \<le> 1 / 2 \<and> (1::real) / 2 \<le> 1"
    using calculate_custom_metrics_keys_range
            [OF eq, THEN conjunct2, rule_format, of "''ground_truth_coverage''" "1 / 2"]
    by simp
  show ?thesis
    using eq dm bd by (intro conjI) (rule eq, rule dm, simp_all)
qed

lemma specificity_example_count:
  "length (filter (\<lambda>term. str_contains term (lower ''$250,000 in 5 minutes with a 650 score''))
       specific_terms) = 3"
  by code_simp

text \<open>
  Claim C3, as stated, gives 4/8 = 0.5 for the answer
  \<^verbatim>\<open>"$250,000 in 5 minutes with a 650 score"\<close>. The code does not return that value.
\<close>

theorem answer_specificity_example_not_half:
  "answer_specificity ''$250,000 in 5 minutes with a 650 score'' \<noteq> Inr (4 / 8)"
  by (simp add: answer_specificity_eq specificity_example_count)

text \<open>
  Claim C3, amended: \<^verbatim>\<open>answer_specificity\<close> is the number of the eight terms
  \<^verbatim>\<open>$\<close>, \<^verbatim>\<open>%\<close>, \<^verbatim>\<open>minutes\<close>, \<^verbatim>\<open>days\<close>, \<^verbatim>\<open>years\<close>, \<^verbatim>\<open>score\<close>, \<^verbatim>\<open>income\<close>, \<^verbatim>\<open>equity\<close> that occur
  as substrings of the lowercased answer, divided by 8; for the answer
  \<^verbatim>\<open>"$250,000 in 5 minutes with a 650 score"\<close> three of them occur (\<^verbatim>\<open>$\<close>, \<^verbatim>\<open>minutes\<close>,
  \<^verbatim>\<open>score\<close>) and the result is 3/8 = 0.375.
\<close>

theorem answer_specificity_counts_terms:
  "answer_specificity answer =
     Inr (real (card {term \<in> {''$'', ''%'', ''minutes'', ''days'', ''years'', ''score'', ''income'', ''equity''}.
                        sublist term (lower answer)}) / 8)
   \<and> answer_specificity ''$250,000 in 5 minutes with a 650 score'' = Inr (3 / 8)"
proof -
  have d: "distinct specific_terms"
    by (simp add: specific_terms_def)
  have s: "set specific_terms = {''$'', ''%'', ''minutes'', ''days'', ''years'', ''score'', ''income'', ''equity''}"
    by (simp add: specific_terms_def)
  have "card {term \<in> set specific_terms. sublist term (lower answer)}
        = length (filter (\<lambda>term. str_contains term (lower answer)) specific_terms)"
    using distinct_card [OF distinct_filter [OF d], of "\<lambda>term. str_contains term (lower answer)"]
    by (simp add: str_contains_sublist)
  then show ?thesis
    unfolding s by (simp add: answer_specificity_eq specificity_example_count)
qed

text \<open>
  Claim C4: \<^verbatim>\<open>response_efficiency\<close> is 0 for a response time \<open>t \<le> 0\<close>, 1 for
  \<open>2 \<le> t \<le> 8\<close>, \<open>t / 2\<close> for \<open>0 < t < 2\<close> and \<open>max 0.1 (8 / t)\<close> for \<open>t > 8\<close>, where it is
  at least 0.1; it is 1 at 5, 0.5 at 1, 0.5 at 16 and 0 at 0. No division in it raises.
\<close>

theorem response_efficiency_piecewise:
  "(t \<le> 0 \<longrightarrow> response_efficiency t = Inr 0)
   \<and> (2 \<le> t \<and> t \<le> 8 \<longrightarrow> response_efficiency t = Inr 1)
   \<and> (0 < t \<and> t < 2 \<longrightarrow> response_efficiency t = Inr (t / 2))
   \<and> (8 < t \<longrightarrow> response_efficiency t = Inr (max (1 / 10) (8 / t))
                \<and> 1 / 10 \<le> projr (response_efficiency t))
   \<and> response_efficiency 5 = Inr 1
   \<and> response_efficiency 1 = Inr (1 / 2)
   \<and> response_efficiency 16 = Inr (1 / 2)
   \<and> response_efficiency 0 = Inr 0"
  by (simp add: response_efficiency_eq)

theorem response_efficiency_piecewise_witness:
  "(0::real) \<le> 0 \<and> response_efficiency 0 = Inr 0
   \<and> (2::real) \<le> 5 \<and> (5::real) \<le> 8 \<and> response_efficiency 5 = Inr 1
   \<and> (0::real) < 1 \<and> (1::real) < 2 \<and> response_efficiency 1 = Inr (1 / 2)
   \<and> (8::real) < 100 \<and> response_efficiency 100 = Inr (1 / 10)"
  using response_efficiency_piecewise [of 0] response_efficiency_piecewise [of 5] response_efficiency_piecewise [of 1] response_efficiency_piecewise [of 100] by simp

text \<open>
  Claim C8: \<^verbatim>\<open>context_utilization\<close> never raises. It is 0 when the list of contexts
  is empty, when the answer is the empty string, or when no context has a word, whatever
  the answer; otherwise it is the number of distinct lowercased words that the answer
  shares with the contexts, divided by the number of distinct lowercased words of the
  contexts. The words of the contexts are the words of every context of the list: the
  code concatenates the contexts with one space between two of them
  (\<^verbatim>\<open>' '.join(contexts)\<close>), so the words of the concatenation are the words of all the
  contexts, and no word runs from one context into the next.
\<close>

theorem context_utilization_ratio:
  "(contexts = [] \<or> answer = [] \<or> (\<Union>c\<in>set contexts. distinct_lowercased_words c) = {}
      \<longrightarrow> context_utilization contexts answer = Inr 0)
   \<and> (contexts \<noteq> [] \<and> answer \<noteq> [] \<and> (\<Union>c\<in>set contexts. distinct_lowercased_words c) \<noteq> {}
      \<longrightarrow> context_utilization contexts answer =
            Inr (real (card (distinct_lowercased_words answer
                             \<inter> (\<Union>c\<in>set contexts. distinct_lowercased_words c)))
                 / real (card (\<Union>c\<in>set contexts. distinct_lowercased_words c))))
   \<and> context_utilization [] answer = Inr 0
   \<and> distinct_lowercased_words (join '' '' contexts)
       = (\<Union>c\<in>set contexts. distinct_lowercased_words c)"
proof -
  have j: "set (split (lower (join '' '' contexts)))
           = (\<Union>c\<in>set contexts. distinct_lowercased_words c)"
    using distinct_lowercased_words_join [of contexts]
    by (simp add: distinct_lowercased_words_def)
  have e: "split (lower (join '' '' contexts)) = [] \<longleftrightarrow>
           (\<Union>c\<in>set contexts. distinct_lowercased_words c) = {}"
    unfolding j [symmetric] by simp
  show ?thesis
    unfolding context_utilization_eq e j
    by (simp add: distinct_lowercased_words_join Int_commute)
       (simp add: distinct_lowercased_words_def)
qed

theorem context_utilization_ratio_witness:
  "([] :: string list) = [] \<and> context_utilization [] ''hi'' = Inr 0
   \<and> [''Rates vary'', ''Fast approval''] \<noteq> [] \<and> ''Approval in 5 minutes'' \<noteq> []
   \<and> (\<Union>c\<in>set [''Rates vary'', ''Fast approval'']. distinct_lowercased_words c)
       = {''rates'', ''vary'', ''fast'', ''approval''}
   \<and> context_utilization [''Rates vary'', ''Fast approval''] ''Approval in 5 minutes'' = Inr (1 / 4)
   \<and> context_utilization [''a b'', ''c d''] ''bc'' = Inr 0"
proof -
  let ?cs = "[''Rates vary'', ''Fast approval'']"
  have w: "(\<Union>c\<in>set ?cs. distinct_lowercased_words c) = {''rates'', ''vary'', ''fast'', ''approval''}"
    by code_simp
  have n: "card (distinct_lowercased_words ''Approval in 5 minutes''
                 \<inter> (\<Union>c\<in>set ?cs. distinct_lowercased_words c)) = 1"
    by code_simp
  have d: "card (\<Union>c\<in>set ?cs. distinct_lowercased_words c) = 4"
    by code_simp
  have ne: "(\<Union>c\<in>set ?cs. distinct_lowercased_words c) \<noteq> {}"
    unfolding w by simp
  have w2: "(\<Union>c\<in>set [''a b'', ''c d'']. distinct_lowercased_words c) \<noteq> {}"
    by code_simp
  have n2: "card (distinct_lowercased_words ''bc''
                 \<inter> (\<Union>c\<in>set [''a b'', ''c d'']. distinct_lowercased_words c)) = 0"
    by code_simp
  have a: "context_utilization [] ''hi'' = Inr 0"
    using context_utilization_ratio [of "[]" "''hi''"] by simp
  have b: "context_utilization ?cs ''Approval in 5 minutes'' = Inr (1 / 4)"
    using context_utilization_ratio [of ?cs "''Approval in 5 minutes''", THEN conjunct2, THEN conjunct1] ne
    unfolding n d by simp
  have c: "context_utilization [''a b'', ''c d''] ''bc'' = Inr 0"
    using context_utilization_ratio [of "[''a b'', ''c d'']" "''bc''", THEN conjunct2, THEN conjunct1] w2
    unfolding n2 by simp
  show ?thesis
    by (intro conjI) (simp, rule a, simp, simp, rule w, rule b, rule c)
qed

text \<open>
  Claim C9: \<^verbatim>\<open>response_completeness\<close> is \<open>min (len(answer) / 200) 1\<close>, with the length
  in characters, and 0 for the empty answer; so it is 0 for the empty string, 1 for every
  answer of at least 200 characters and 0.5 for every answer of exactly 100 characters.
\<close>

theorem response_completeness_length:
  "response_completeness answer = (if answer = [] then 0 else min (real (length answer) / 200) 1)
   \<and> response_completeness [] = 0
   \<and> (200 \<le> length answer \<longrightarrow> response_completeness answer = 1)
   \<and> (length answer = 100 \<longrightarrow> response_completeness answer = 1 / 2)"
  by (auto simp: response_completeness_def)

theorem response_completeness_length_witness:
  "200 \<le> length (replicate 250 CHR ''a'') \<and> response_completeness (replicate 250 CHR ''a'') = 1
   \<and> length (replicate 100 CHR ''a'') = 100 \<and> response_completeness (replicate 100 CHR ''a'') = 1 / 2"
  using response_completeness_length [of "replicate 250 CHR ''a''"] response_completeness_length [of "replicate 100 CHR ''a''"]
  by simp

section \<open>The claims about the letter grades\<close>

text \<open>
  Claim C5: \<^verbatim>\<open>get_score_grade\<close> returns a grade for every score, also below 0 and
  above 1, and the grade is one of six bands with inclusive lower bounds: \<^verbatim>\<open>A+\<close> from
  0.9, \<^verbatim>\<open>A\<close> from 0.8, \<^verbatim>\<open>B\<close> from 0.7, \<^verbatim>\<open>C\<close> from 0.6, \<^verbatim>\<open>D\<close> from 0.5, \<^verbatim>\<open>F\<close> below; the
  grade of 0.9 is \<^verbatim>\<open>A+\<close>, of 0.89999 \<^verbatim>\<open>A\<close>, of 0.5 \<^verbatim>\<open>D\<close> and of 0.49999 \<^verbatim>\<open>F\<close>.
\<close>

theorem get_score_grade_bands:
  "(9 / 10 \<le> s \<longrightarrow> get_score_grade s = ''A+'')
   \<and> (8 / 10 \<le> s \<and> s < 9 / 10 \<longrightarrow> get_score_grade s = ''A'')
   \<and> (7 / 10 \<le> s \<and> s < 8 / 10 \<longrightarrow> get_score_grade s = ''B'')
   \<and> (6 / 10 \<le> s \<and> s < 7 / 10 \<longrightarrow> get_score_grade s = ''C'')
   \<and> (5 / 10 \<le> s \<and> s < 6 / 10 \<longrightarrow> get_score_grade s = ''D'')
   \<and> (s < 5 / 10 \<longrightarrow> get_score_grade s = ''F'')
   \<and> get_score_grade s \<in> {''A+'', ''A'', ''B'', ''C'', ''D'', ''F''}
   \<and> get_score_grade (9 / 10) = ''A+''
   \<and> get_score_grade (89999 / 100000) = ''A''
   \<and> get_score_grade (5 / 10) = ''D''
   \<and> get_score_grade (49999 / 100000) = ''F''"
  by (simp add: get_score_grade_def)

theorem get_score_grade_bands_witness:
  "(9::real) / 10 \<le> 2 \<and> get_score_grade 2 = ''A+''
   \<and> (8::real) / 10 \<le> 85 / 100 \<and> (85::real) / 100 < 9 / 10 \<and> get_score_grade (85 / 100) = ''A''
   \<and> (7::real) / 10 \<le> 75 / 100 \<and> (75::real) / 100 < 8 / 10 \<and> get_score_grade (75 / 100) = ''B''
   \<and> (6::real) / 10 \<le> 65 / 100 \<and> (65::real) / 100 < 7 / 10 \<and> get_score_grade (65 / 100) = ''C''
   \<and> (5::real) / 10 \<le> 55 / 100 \<and> (55::real) / 100 < 6 / 10 \<and> get_score_grade (55 / 100) = ''D''
   \<and> (-1::real) < 5 / 10 \<and> get_score_grade (-1) = ''F''"
  using get_score_grade_bands [of 2] get_score_grade_bands [of "85 / 100"] get_score_grade_bands [of "75 / 100"] get_score_grade_bands [of "65 / 100"]
        get_score_grade_bands [of "55 / 100"] get_score_grade_bands [of "-1"]
  by simp

text \<open>
  Claim C10: \<^verbatim>\<open>EnhancedRAGEvaluator.get_score_grade\<close> and
  \<^verbatim>\<open>RAGASEvaluator.get_overall_grade\<close> return the same grade for every score.
\<close>

theorem get_score_grade_eq_get_overall_grade: "get_score_grade score = get_overall_grade score"
  by (simp add: get_score_grade_def get_overall_grade_def)

section \<open>The claim about the evaluation loops\<close>







section \<open>The claim about the aggregation\<close>

lemma metric_values_present:
  "\<forall>r\<in>set rs. dr_custom_metrics r m \<noteq> None \<Longrightarrow> metric_values m rs = Inr (metric_column m rs)"
  by (induction rs) (auto simp: metric_column_def)

lemma metric_column_Nil_iff: "metric_column k rs = [] \<longleftrightarrow> rs = []"
  by (simp add: metric_column_def)

lemma np_mean_arithmetic_mean: "xs \<noteq> [] \<Longrightarrow> np_mean xs = Finite (arithmetic_mean xs)"
  by (simp add: np_mean_def arithmetic_mean_def)

lemma np_std_population_std: "xs \<noteq> [] \<Longrightarrow> np_std xs = Finite (population_std xs)"
  by (simp add: np_std_def population_std_def arithmetic_mean_def Let_def)

text \<open>
  What the loop stores, whatever \<open>mean\<close> and \<open>std\<close> are: under each of the ten keys the
  mean, or the standard deviation, of the column of that metric.
\<close>

lemma custom_results_loop_five:
  assumes "\<forall>r\<in>set rs.
             {''response_completeness'', ''context_utilization'', ''response_efficiency'',
              ''answer_specificity'', ''ground_truth_coverage''} \<subseteq> dom (dr_custom_metrics r)"
  shows "custom_results_loop mean std metric_names rs Map.empty =
     Inr [''avg_response_completeness'' \<mapsto> mean (metric_column ''response_completeness'' rs),
          ''std_response_completeness'' \<mapsto> std (metric_column ''response_completeness'' rs),
          ''avg_context_utilization'' \<mapsto> mean (metric_column ''context_utilization'' rs),
          ''std_context_utilization'' \<mapsto> std (metric_column ''context_utilization'' rs),
          ''avg_response_efficiency'' \<mapsto> mean (metric_column ''response_efficiency'' rs),
          ''std_response_efficiency'' \<mapsto> std (metric_column ''response_efficiency'' rs),
          ''avg_answer_specificity'' \<mapsto> mean (metric_column ''answer_specificity'' rs),
          ''std_answer_specificity'' \<mapsto> std (metric_column ''answer_specificity'' rs),
          ''avg_ground_truth_coverage'' \<mapsto> mean (metric_column ''ground_truth_coverage'' rs),
          ''std_ground_truth_coverage'' \<mapsto> std (metric_column ''ground_truth_coverage'' rs)]"
proof -
  have v1: "metric_values ''response_completeness'' rs =
              Inr (metric_column ''response_completeness'' rs)"
    using assms by (intro metric_values_present) auto
  have v2: "metric_values ''context_utilization'' rs =
              Inr (metric_column ''context_utilization'' rs)"
    using assms by (intro metric_values_present) auto
  have v3: "metric_values ''response_efficiency'' rs =
              Inr (metric_column ''response_efficiency'' rs)"
    using assms by (intro metric_values_present) auto
  have v4: "metric_values ''answer_specificity'' rs =
              Inr (metric_column ''answer_specificity'' rs)"
    using assms by (intro metric_values_present) auto
  have v5: "metric_values ''ground_truth_coverage'' rs =
              Inr (metric_column ''ground_truth_coverage'' rs)"
    using assms by (intro metric_values_present) auto
  show ?thesis
    unfolding metric_names_def by (simp add: v1 v2 v3 v4 v5)
qed

lemma run_enhanced_evaluation_five:
  assumes "\<forall>r\<in>set rs.
             {''response_completeness'', ''context_utilization'', ''response_efficiency'',
              ''answer_specificity'', ''ground_truth_coverage''} \<subseteq> dom (dr_custom_metrics r)"
    and "evaluate dataset = Inr ragas_results"
  shows "\<exists>res. run_enhanced_evaluation mean std evaluate dataset rs = Some res
     \<and> er_custom_metrics res ''avg_response_completeness''
         = Some (mean (metric_column ''response_completeness'' rs))
     \<and> er_custom_metrics res ''std_response_completeness''
         = Some (std (metric_column ''response_completeness'' rs))
     \<and> er_custom_metrics res ''avg_context_utilization''
         = Some (mean (metric_column ''context_utilization'' rs))
     \<and> er_custom_metrics res ''std_context_utilization''
         = Some (std (metric_column ''context_utilization'' rs))
     \<and> er_custom_metrics res ''avg_response_efficiency''
         = Some (mean (metric_column ''response_efficiency'' rs))
     \<and> er_custom_metrics res ''std_response_efficiency''
         = Some (std (metric_column ''response_efficiency'' rs))
     \<and> er_custom_metrics res ''avg_answer_specificity''
         = Some (mean (metric_column ''answer_specificity'' rs))
     \<and> er_custom_metrics res ''std_answer_specificity''
         = Some (std (metric_column ''answer_specificity'' rs))
     \<and> er_custom_metrics res ''avg_ground_truth_coverage''
         = Some (mean (metric_column ''ground_truth_coverage'' rs))
     \<and> er_custom_metrics res ''std_ground_truth_coverage''
         = Some (std (metric_column ''ground_truth_coverage'' rs))
     \<and> dom (er_custom_metrics res)
         = {''avg_response_completeness'', ''std_response_completeness'',
            ''avg_context_utilization'', ''std_context_utilization'',
            ''avg_response_efficiency'', ''std_response_efficiency'',
            ''avg_answer_specificity'', ''std_answer_specificity'',
            ''avg_ground_truth_coverage'', ''std_ground_truth_coverage''}"
  unfolding run_enhanced_evaluation_def
  by (simp add: assms(2) custom_results_loop_five [OF assms(1)]) auto

lemma uniform_result_keys:
  "{''response_completeness'', ''context_utilization'', ''response_efficiency'',
    ''answer_specificity'', ''ground_truth_coverage''} \<subseteq> dom (dr_custom_metrics (uniform_result v))"
  by (simp add: uniform_result_def)

lemma sample_result_keys:
  "{''response_completeness'', ''context_utilization'', ''response_efficiency'',
    ''answer_specificity'', ''ground_truth_coverage''}
     \<subseteq> dom (dr_custom_metrics (sample_result rc cu re sp gc))"
  by (simp add: sample_result_def)

text \<open>The report of a run on three detailed results whose metrics all are \<open>a\<close>, \<open>b\<close>, \<open>c\<close>.\<close>

lemma run_uniform_results:
  "custom_metric_of
     (run_enhanced_evaluation mean std ragas_ok empty_ragas_data
        [uniform_result a, uniform_result b, uniform_result c]) ''avg_response_efficiency''
     = Some (mean [a, b, c])
   \<and> custom_metric_of
     (run_enhanced_evaluation mean std ragas_ok empty_ragas_data
        [uniform_result a, uniform_result b, uniform_result c]) ''std_response_efficiency''
     = Some (std [a, b, c])"
proof -
  let ?rs = "[uniform_result a, uniform_result b, uniform_result c]"
  have k: "\<forall>r\<in>set ?rs.
             {''response_completeness'', ''context_utilization'', ''response_efficiency'',
              ''answer_specificity'', ''ground_truth_coverage''} \<subseteq> dom (dr_custom_metrics r)"
    using uniform_result_keys by auto
  have e: "ragas_ok empty_ragas_data = Inr ()"
    by (simp add: ragas_ok_def)
  have c: "metric_column ''response_efficiency'' ?rs = [a, b, c]"
    by (simp add: metric_column_def uniform_result_def)
  obtain res where "run_enhanced_evaluation mean std ragas_ok empty_ragas_data ?rs = Some res"
    and "er_custom_metrics res ''avg_response_efficiency''
           = Some (mean (metric_column ''response_efficiency'' ?rs))"
    and "er_custom_metrics res ''std_response_efficiency''
           = Some (std (metric_column ''response_efficiency'' ?rs))"
    using run_enhanced_evaluation_five
            [where evaluate = ragas_ok and dataset = empty_ragas_data and mean = mean
               and std = std, OF k e]
    by blast
  then show ?thesis
    unfolding c by (simp add: custom_metric_of_def)
qed

subsection \<open>The example in exact arithmetic\<close>

lemma sqrt_2_75: "\<bar>sqrt (2 / 75) - 163 / 1000\<bar> < (1::real) / 1000"
proof -
  have "(162 / 1000 :: real) < sqrt (2 / 75)"
    by (rule real_less_rsqrt) (simp add: power2_eq_square)
  moreover have "sqrt (2 / 75) < (164 / 1000 :: real)"
    by (rule real_less_lsqrt) (simp_all add: power2_eq_square)
  ultimately show ?thesis by linarith
qed

lemma mean_example: "arithmetic_mean [2 / 10, 4 / 10, 6 / 10] = 4 / 10"
  by (simp add: arithmetic_mean_def)

lemma std_example: "population_std [2 / 10, 4 / 10, 6 / 10] = sqrt (2 / 75)"
  unfolding population_std_def mean_example by (simp add: power2_eq_square)

subsection \<open>The example in float64 arithmetic\<close>

text \<open>
  \<open>float64_exponent\<close> finds the binary exponent of every number in the range of
  binary64, so \<open>float64_round\<close> rounds to 53 significant bits there.
\<close>

lemma scaled_ge_1: "1 \<le> y \<Longrightarrow> 1 \<le> y * 2 ^ k" for y :: real
proof -
  assume "1 \<le> y"
  moreover have "1 \<le> (2::real) ^ k" by simp
  ultimately have "1 * 1 \<le> y * 2 ^ k"
    by (intro mult_mono) auto
  then show ?thesis by simp
qed

lemma float64_exponent_from_up:
  "1 \<le> y \<Longrightarrow> y < 2 \<Longrightarrow> k < n \<Longrightarrow> float64_exponent_from n (y * 2 ^ k) e = e + int k"
proof (induction k arbitrary: n e)
  case 0
  then obtain n' where "n = Suc n'" by (cases n) auto
  with 0 show ?case by simp
next
  case (Suc k)
  then obtain n' where n: "n = Suc n'" and k: "k < n'" by (cases n) auto
  have "2 \<le> y * 2 ^ Suc k"
    using scaled_ge_1 [OF Suc.prems(1), of k] by simp
  then show ?case
    using Suc.IH [OF Suc.prems(1,2) k, of "e + 1"] n by simp
qed

lemma float64_exponent_from_down:
  "1 \<le> y \<Longrightarrow> y < 2 \<Longrightarrow> k < n \<Longrightarrow> float64_exponent_from n (y / 2 ^ k) e = e - int k"
proof (induction k arbitrary: n e)
  case 0
  then obtain n' where "n = Suc n'" by (cases n) auto
  with 0 show ?case by simp
next
  case (Suc k)
  then obtain n' where n: "n = Suc n'" and k: "k < n'" by (cases n) auto
  have "1 \<le> (2::real) ^ k" by simp
  then have "y < 2 * 2 ^ k"
    using Suc.prems(2) by (smt (verit) mult_left_mono)
  then have lt: "y / 2 ^ Suc k < 1"
    by (simp add: field_simps)
  then have nge: "\<not> 2 \<le> y / 2 ^ Suc k"
    by linarith
  have "float64_exponent_from n (y / 2 ^ Suc k) e
        = float64_exponent_from n' (y / 2 ^ Suc k * 2) (e - 1)"
    unfolding n using lt nge by (simp del: power_Suc)
  also have "y / 2 ^ Suc k * 2 = y / 2 ^ k"
    by simp
  finally show ?case
    using Suc.IH [OF Suc.prems(1,2) k, of "e - 1"] by simp
qed

lemma float64_exponent_eq:
  assumes "- 1022 \<le> e" and "e \<le> 1023" and "pow2 e \<le> \<bar>x\<bar>" and "\<bar>x\<bar> < pow2 (e + 1)"
  shows "float64_exponent x = e"
proof (cases "0 \<le> e")
  case True
  define k where "k = nat e"
  define y where "y = \<bar>x\<bar> / 2 ^ k"
  have e: "e = int k" using True by (simp add: k_def)
  have "2 ^ k \<le> \<bar>x\<bar>" "\<bar>x\<bar> < 2 * 2 ^ k"
    using assms(3,4) True by (simp_all add: pow2_def k_def nat_add_distrib)
  then have y: "1 \<le> y" "y < 2"
    by (simp_all add: y_def field_simps)
  have x: "\<bar>x\<bar> = y * 2 ^ k"
    by (simp add: y_def)
  have "k < 2200" using assms(2) e by simp
  from float64_exponent_from_up [OF y this, of 0]
  show ?thesis
    using assms(1) by (simp add: float64_exponent_def x e)
next
  case False
  define k where "k = nat (- e)"
  define y where "y = \<bar>x\<bar> * 2 ^ k"
  have e: "e = - int k" using False by (simp add: k_def)
  have k: "0 < k" using False by (simp add: k_def)
  have p1: "pow2 e = 1 / 2 ^ k"
    using False by (simp add: pow2_def k_def)
  have p2: "pow2 (e + 1) = 2 / 2 ^ k"
  proof (cases "e = - 1")
    case True
    then show ?thesis by (simp add: pow2_def k_def)
  next
    case False
    with \<open>\<not> 0 \<le> e\<close> have "e + 1 < 0" by simp
    then have "pow2 (e + 1) = 1 / 2 ^ nat (- (e + 1))"
      by (simp add: pow2_def)
    also have "nat (- (e + 1)) = k - 1"
      by (simp add: k_def nat_diff_distrib)
    also have "1 / (2::real) ^ (k - 1) = 2 / 2 ^ k"
      using k by (cases k) simp_all
    finally show ?thesis .
  qed
  have y: "1 \<le> y" "y < 2"
    using assms(3,4) unfolding p1 p2 by (simp_all add: y_def field_simps)
  have x: "\<bar>x\<bar> = y / 2 ^ k"
    by (simp add: y_def)
  have "k < 2200" using assms(1) e by simp
  from float64_exponent_from_down [OF y this, of 0]
  show ?thesis
    using assms(1) by (simp add: float64_exponent_def x e)
qed

lemma float64_round_eq:
  assumes "- 1022 \<le> e" and "e \<le> 1023" and "pow2 e \<le> \<bar>x\<bar>" and "\<bar>x\<bar> < pow2 (e + 1)"
  shows "float64_round x = of_int (round_half_even (x / pow2 (e - 52))) * pow2 (e - 52)"
proof -
  have "0 < pow2 e" by (simp add: pow2_def)
  with assms(3) have "x \<noteq> 0" by auto
  then show ?thesis
    by (simp add: float64_round_def Let_def float64_exponent_eq [OF assms])
qed

lemma round_half_even_near: "\<bar>of_int (round_half_even y) - y\<bar> \<le> 1 / 2"
  unfolding round_half_even_def Let_def by (auto simp: abs_le_iff)

lemma float64_round_eighth:
  assumes "1 / 8 \<le> x" and "x < 1 / 4"
  shows "\<bar>float64_round x - x\<bar> \<le> 1 / 2 ^ 56"
proof -
  have r: "float64_round x = of_int (round_half_even (x * 2 ^ 55)) / 2 ^ 55"
    using float64_round_eq [of "- 3" x] assms by (simp add: pow2_def)
  have "\<bar>of_int (round_half_even (x * 2 ^ 55)) - x * 2 ^ 55\<bar> \<le> 1 / 2"
    by (rule round_half_even_near)
  then have "\<bar>of_int (round_half_even (x * 2 ^ 55)) / 2 ^ 55 - x\<bar> \<le> (1 / 2) / 2 ^ 55"
    by (simp add: abs_le_iff field_simps)
  then show ?thesis
    unfolding r by simp
qed

text \<open>
  The roundings that the mean and the variance of the floats 0.2, 0.4, 0.6 go through,
  one by one.
\<close>

lemma float64_step_1: "float64_round (1 / 5) = 3602879701896397 / 18014398509481984"
  using float64_round_eq [of "- 3" "1 / 5"] by (simp add: pow2_def round_half_even_def)

lemma float64_step_2: "float64_round (2 / 5) = 3602879701896397 / 9007199254740992"
  using float64_round_eq [of "- 2" "2 / 5"] by (simp add: pow2_def round_half_even_def)

lemma float64_step_3: "float64_round (3 / 5) = 5404319552844595 / 9007199254740992"
  using float64_round_eq [of "- 1" "3 / 5"] by (simp add: pow2_def round_half_even_def)

lemma float64_step_4: "float64_round (3602879701896397 / 18014398509481984) = 3602879701896397 / 18014398509481984"
  using float64_round_eq [of "- 3" "3602879701896397 / 18014398509481984"] by (simp add: pow2_def round_half_even_def)

lemma float64_step_5: "float64_round (10808639105689191 / 18014398509481984) = 1351079888211149 / 2251799813685248"
  using float64_round_eq [of "- 1" "10808639105689191 / 18014398509481984"] by (simp add: pow2_def round_half_even_def)

lemma float64_step_6: "float64_round (10808639105689191 / 9007199254740992) = 1351079888211149 / 1125899906842624"
  using float64_round_eq [of "0" "10808639105689191 / 9007199254740992"] by (simp add: pow2_def round_half_even_def)

lemma float64_step_7: "float64_round (1351079888211149 / 3377699720527872) = 7205759403792795 / 18014398509481984"
  using float64_round_eq [of "- 2" "1351079888211149 / 3377699720527872"] by (simp add: pow2_def round_half_even_def)

lemma float64_step_8: "float64_round (- (1801439850948199 / 9007199254740992)) = - (1801439850948199 / 9007199254740992)"
  using float64_round_eq [of "- 3" "- (1801439850948199 / 9007199254740992)"] by (simp add: pow2_def round_half_even_def)

lemma float64_step_9: "float64_round (- (1 / 18014398509481984)) = - (1 / 18014398509481984)"
  using float64_round_eq [of "- 54" "- (1 / 18014398509481984)"] by (simp add: pow2_def round_half_even_def)

lemma float64_step_10: "float64_round (3602879701896395 / 18014398509481984) = 3602879701896395 / 18014398509481984"
  using float64_round_eq [of "- 3" "3602879701896395 / 18014398509481984"] by (simp add: pow2_def round_half_even_def)

lemma float64_step_11: "float64_round (3245185536584269429559381343601 / 81129638414606681695789005144064) = 5764607523034239 / 144115188075855872"
  using float64_round_eq [of "- 5" "3245185536584269429559381343601 / 81129638414606681695789005144064"] by (simp add: pow2_def round_half_even_def)

lemma float64_step_12: "float64_round (1 / 324518553658426726783156020576256) = 1 / 324518553658426726783156020576256"
  using float64_round_eq [of "- 108" "1 / 324518553658426726783156020576256"] by (simp add: pow2_def round_half_even_def)

lemma float64_step_13: "float64_round (12980742146337056100959313996025 / 324518553658426726783156020576256) = 5764607523034229 / 144115188075855872"
  using float64_round_eq [of "- 5" "12980742146337056100959313996025 / 324518553658426726783156020576256"] by (simp add: pow2_def round_half_even_def)

lemma float64_step_14: "float64_round (5764607523034239 / 144115188075855872) = 5764607523034239 / 144115188075855872"
  using float64_round_eq [of "- 5" "5764607523034239 / 144115188075855872"] by (simp add: pow2_def round_half_even_def)

lemma float64_step_15: "float64_round (12980742146337078348741473206273 / 324518553658426726783156020576256) = 5764607523034239 / 144115188075855872"
  using float64_round_eq [of "- 5" "12980742146337078348741473206273 / 324518553658426726783156020576256"] by (simp add: pow2_def round_half_even_def)

lemma float64_step_16: "float64_round (2882303761517117 / 36028797018963968) = 2882303761517117 / 36028797018963968"
  using float64_round_eq [of "- 4" "2882303761517117 / 36028797018963968"] by (simp add: pow2_def round_half_even_def)

lemma float64_step_17: "float64_round (2882303761517117 / 108086391056891904) = 7686143364045645 / 288230376151711744"
  using float64_round_eq [of "- 6" "2882303761517117 / 108086391056891904"] by (simp add: pow2_def round_half_even_def)

lemmas float64_steps = float64_step_1 float64_step_2 float64_step_3 float64_step_4 float64_step_5 float64_step_6 float64_step_7 float64_step_8 float64_step_9 float64_step_10 float64_step_11 float64_step_12 float64_step_13 float64_step_14 float64_step_15 float64_step_16 float64_step_17

lemma float_mean_example:
  "np_mean_float64 [float64_round (2 / 10), float64_round (4 / 10), float64_round (6 / 10)]
     = Finite (7205759403792795 / 2 ^ 54)"
  by (simp add: np_mean_float64_def float64_add_def float64_steps)

lemma float_var_example:
  "np_var_float64 [float64_round (2 / 10), float64_round (4 / 10), float64_round (6 / 10)]
     = 7686143364045645 / 2 ^ 58"
  by (simp add: np_var_float64_def Let_def float64_add_def float64_steps)

lemma float_std_example:
  "\<exists>s. np_std_float64 [float64_round (2 / 10), float64_round (4 / 10), float64_round (6 / 10)]
         = Finite s \<and> \<bar>s - 163 / 1000\<bar> < 1 / 1000"
proof -
  let ?v = "7686143364045645 / 2 ^ 58 :: real"
  have lo: "1632 / 10000 < sqrt ?v"
    by (rule real_less_rsqrt) (simp add: power2_eq_square)
  have hi: "sqrt ?v < 1634 / 10000"
    by (rule real_less_lsqrt) (simp_all add: power2_eq_square)
  have "\<bar>float64_round (sqrt ?v) - sqrt ?v\<bar> \<le> 1 / 2 ^ 56"
    using lo hi by (intro float64_round_eighth) linarith+
  moreover have "(1::real) / 2 ^ 56 < 1 / 10000"
    by simp
  ultimately have "\<bar>float64_round (sqrt ?v) - 163 / 1000\<bar> < 1 / 1000"
    using lo hi by linarith
  then show ?thesis
    unfolding np_std_float64_def float_var_example by simp
qed

lemma float64_mean_differs: "float64_round (4 / 10) \<noteq> 7205759403792795 / 2 ^ 54"
  by (simp add: float64_steps)

text \<open>
  Claim C6, as stated, gives the mean 0.4 for three items with the metric values 0.2,
  0.4, 0.6. With numpy's float64 arithmetic the run stores another number under
  \<^verbatim>\<open>avg_response_efficiency\<close> than the float 0.4.
\<close>

theorem run_enhanced_evaluation_float_mean_not_exact:
  "custom_metric_of
     (run_enhanced_evaluation np_mean_float64 np_std_float64 ragas_ok empty_ragas_data
        [uniform_result (float64_round (2 / 10)), uniform_result (float64_round (4 / 10)),
         uniform_result (float64_round (6 / 10))]) ''avg_response_efficiency''
   \<noteq> Some (Finite (float64_round (4 / 10)))"
  using float64_mean_differs
  by (simp only: run_uniform_results [THEN conjunct1] float_mean_example) simp

text \<open>
  Claim C6, amended: for a non-empty list of detailed results that all have the five
  metrics, and when the RAGAS library returns, \<^verbatim>\<open>run_enhanced_evaluation\<close> returns a
  result in which, for each of the five metrics, \<^verbatim>\<open>avg_<metric>\<close> is the arithmetic mean
  and \<^verbatim>\<open>std_<metric>\<close> the population standard deviation of the values of that metric
  over all the results, in exact arithmetic; these ten keys are all its keys. For the
  values 0.2, 0.4, 0.6 the exact mean is 0.4 and the exact population standard deviation
  is within 0.001 of 0.163. In float64 arithmetic the run on three items with the float
  values 0.2, 0.4, 0.6 stores the mean 7205759403792795 / 2^54, the float that prints as
  0.4000000000000001, which is not the float 0.4 but within 1e-15 of 0.4, and a
  standard deviation within 0.001 of 0.163.
\<close>

theorem run_enhanced_evaluation_mean_std:
  assumes "detailed_results \<noteq> []"
    and "\<forall>r\<in>set detailed_results.
           {''response_completeness'', ''context_utilization'', ''response_efficiency'',
            ''answer_specificity'', ''ground_truth_coverage''} \<subseteq> dom (dr_custom_metrics r)"
    and "evaluate dataset = Inr ragas_results"
  shows "(\<exists>res. run_enhanced_evaluation np_mean np_std evaluate dataset detailed_results = Some res
     \<and> er_custom_metrics res ''avg_response_completeness''
         = Some (Finite (arithmetic_mean (metric_column ''response_completeness'' detailed_results)))
     \<and> er_custom_metrics res ''std_response_completeness''
         = Some (Finite (population_std (metric_column ''response_completeness'' detailed_results)))
     \<and> er_custom_metrics res ''avg_context_utilization''
         = Some (Finite (arithmetic_mean (metric_column ''context_utilization'' detailed_results)))
     \<and> er_custom_metrics res ''std_context_utilization''
         = Some (Finite (population_std (metric_column ''context_utilization'' detailed_results)))
     \<and> er_custom_metrics res ''avg_response_efficiency''
         = Some (Finite (arithmetic_mean (metric_column ''response_efficiency'' detailed_results)))
     \<and> er_custom_metrics res ''std_response_efficiency''
         = Some (Finite (population_std (metric_column ''response_efficiency'' detailed_results)))
     \<and> er_custom_metrics res ''avg_answer_specificity''
         = Some (Finite (arithmetic_mean (metric_column ''answer_specificity'' detailed_results)))
     \<and> er_custom_metrics res ''std_answer_specificity''
         = Some (Finite (population_std (metric_column ''answer_specificity'' detailed_results)))
     \<and> er_custom_metrics res ''avg_ground_truth_coverage''
         = Some (Finite (arithmetic_mean (metric_column ''ground_truth_coverage'' detailed_results)))
     \<and> er_custom_metrics res ''std_ground_truth_coverage''
         = Some (Finite (population_std (metric_column ''ground_truth_coverage'' detailed_results)))
     \<and> dom (er_custom_metrics res)
         = {''avg_response_completeness'', ''std_response_completeness'',
            ''avg_context_utilization'', ''std_context_utilization'',
            ''avg_response_efficiency'', ''std_response_efficiency'',
            ''avg_answer_specificity'', ''std_answer_specificity'',
            ''avg_ground_truth_coverage'', ''std_ground_truth_coverage''})
   \<and> np_mean [2 / 10, 4 / 10, 6 / 10] = Finite (4 / 10)
   \<and> (\<exists>s. np_std [2 / 10, 4 / 10, 6 / 10] = Finite s \<and> \<bar>s - 163 / 1000\<bar> < 1 / 1000)
   \<and> custom_metric_of
       (run_enhanced_evaluation np_mean_float64 np_std_float64 ragas_ok empty_ragas_data
          [uniform_result (float64_round (2 / 10)), uniform_result (float64_round (4 / 10)),
           uniform_result (float64_round (6 / 10))]) ''avg_response_efficiency''
       = Some (Finite (7205759403792795 / 2 ^ 54))
   \<and> \<bar>7205759403792795 / 2 ^ 54 - 4 / 10\<bar> < (1::real) / 10 ^ 15
   \<and> (\<exists>s. custom_metric_of
         (run_enhanced_evaluation np_mean_float64 np_std_float64 ragas_ok empty_ragas_data
            [uniform_result (float64_round (2 / 10)), uniform_result (float64_round (4 / 10)),
             uniform_result (float64_round (6 / 10))]) ''std_response_efficiency''
         = Some (Finite s) \<and> \<bar>s - 163 / 1000\<bar> < 1 / 1000)"
proof -
  have ne: "metric_column k detailed_results \<noteq> []" for k
    using assms(1) by (simp add: metric_column_Nil_iff)
  have general: "\<exists>res. run_enhanced_evaluation np_mean np_std evaluate dataset detailed_results = Some res
     \<and> er_custom_metrics res ''avg_response_completeness''
         = Some (Finite (arithmetic_mean (metric_column ''response_completeness'' detailed_results)))
     \<and> er_custom_metrics res ''std_response_completeness''
         = Some (Finite (population_std (metric_column ''response_completeness'' detailed_results)))
     \<and> er_custom_metrics res ''avg_context_utilization''
         = Some (Finite (arithmetic_mean (metric_column ''context_utilization'' detailed_results)))
     \<and> er_custom_metrics res ''std_context_utilization''
         = Some (Finite (population_std (metric_column ''context_utilization'' detailed_results)))
     \<and> er_custom_metrics res ''avg_response_efficiency''
         = Some (Finite (arithmetic_mean (metric_column ''response_efficiency'' detailed_results)))
     \<and> er_custom_metrics res ''std_response_efficiency''
         = Some (Finite (population_std (metric_column ''response_efficiency'' detailed_results)))
     \<and> er_custom_metrics res ''avg_answer_specificity''
         = Some (Finite (arithmetic_mean (metric_column ''answer_specificity'' detailed_results)))
     \<and> er_custom_metrics res ''std_answer_specificity''
         = Some (Finite (population_std (metric_column ''answer_specificity'' detailed_results)))
     \<and> er_custom_metrics res ''avg_ground_truth_coverage''
         = Some (Finite (arithmetic_mean (metric_column ''ground_truth_coverage'' detailed_results)))
     \<and> er_custom_metrics res ''std_ground_truth_coverage''
         = Some (Finite (population_std (metric_column ''ground_truth_coverage'' detailed_results)))
     \<and> dom (er_custom_metrics res)
         = {''avg_response_completeness'', ''std_response_completeness'',
            ''avg_context_utilization'', ''std_context_utilization'',
            ''avg_response_efficiency'', ''std_response_efficiency'',
            ''avg_answer_specificity'', ''std_answer_specificity'',
            ''avg_ground_truth_coverage'', ''std_ground_truth_coverage''}"
    using run_enhanced_evaluation_five
            [where evaluate = evaluate and dataset = dataset and mean = np_mean
               and std = np_std, OF assms(2,3)]
    unfolding np_mean_arithmetic_mean [OF ne] np_std_population_std [OF ne] .
  have m: "np_mean [2 / 10, 4 / 10, 6 / 10] = Finite (4 / 10)"
    using np_mean_arithmetic_mean [of "[2 / 10, 4 / 10, 6 / 10]"] mean_example by simp
  have "np_std [2 / 10, 4 / 10, 6 / 10] = Finite (sqrt (2 / 75))"
    using np_std_population_std [of "[2 / 10, 4 / 10, 6 / 10]"] std_example by simp
  then have s: "\<exists>s. np_std [2 / 10, 4 / 10, 6 / 10] = Finite s \<and> \<bar>s - 163 / 1000\<bar> < 1 / 1000"
    using sqrt_2_75 by simp
  have fm: "custom_metric_of
       (run_enhanced_evaluation np_mean_float64 np_std_float64 ragas_ok empty_ragas_data
          [uniform_result (float64_round (2 / 10)), uniform_result (float64_round (4 / 10)),
           uniform_result (float64_round (6 / 10))]) ''avg_response_efficiency''
       = Some (Finite (7205759403792795 / 2 ^ 54))"
    by (simp only: run_uniform_results [THEN conjunct1] float_mean_example)
  have near: "\<bar>7205759403792795 / 2 ^ 54 - 4 / 10\<bar> < (1::real) / 10 ^ 15"
    by simp
  have fs: "\<exists>s. custom_metric_of
         (run_enhanced_evaluation np_mean_float64 np_std_float64 ragas_ok empty_ragas_data
            [uniform_result (float64_round (2 / 10)), uniform_result (float64_round (4 / 10)),
             uniform_result (float64_round (6 / 10))]) ''std_response_efficiency''
         = Some (Finite s) \<and> \<bar>s - 163 / 1000\<bar> < 1 / 1000"
    using float_std_example by (simp only: run_uniform_results [THEN conjunct2]) simp
  from general m s fm near fs show ?thesis
    by (intro conjI)
qed

theorem run_enhanced_evaluation_mean_std_witness:
  "[sample_result (2 / 10) (1 / 10) 1 0 (1 / 2), sample_result (4 / 10) (1 / 10) 1 (1 / 4) (1 / 2),
    sample_result (6 / 10) (1 / 10) 1 (1 / 2) (1 / 2)] \<noteq> []
   \<and> ragas_ok empty_ragas_data = Inr ()
   \<and> (\<exists>res. run_enhanced_evaluation np_mean np_std ragas_ok empty_ragas_data
               [sample_result (2 / 10) (1 / 10) 1 0 (1 / 2),
                sample_result (4 / 10) (1 / 10) 1 (1 / 4) (1 / 2),
                sample_result (6 / 10) (1 / 10) 1 (1 / 2) (1 / 2)] = Some res
        \<and> er_custom_metrics res ''avg_response_completeness'' = Some (Finite (4 / 10))
        \<and> er_custom_metrics res ''std_response_completeness'' = Some (Finite (sqrt (2 / 75)))
        \<and> er_custom_metrics res ''avg_context_utilization'' = Some (Finite (1 / 10))
        \<and> er_custom_metrics res ''std_context_utilization'' = Some (Finite 0)
        \<and> er_custom_metrics res ''avg_response_efficiency'' = Some (Finite 1)
        \<and> er_custom_metrics res ''std_response_efficiency'' = Some (Finite 0)
        \<and> er_custom_metrics res ''avg_answer_specificity'' = Some (Finite (1 / 4))
        \<and> er_custom_metrics res ''std_answer_specificity'' = Some (Finite (sqrt (1 / 24)))
        \<and> er_custom_metrics res ''avg_ground_truth_coverage'' = Some (Finite (1 / 2))
        \<and> er_custom_metrics res ''std_ground_truth_coverage'' = Some (Finite 0))"
proof -
  let ?rs = "[sample_result (2 / 10) (1 / 10) 1 0 (1 / 2),
              sample_result (4 / 10) (1 / 10) 1 (1 / 4) (1 / 2),
              sample_result (6 / 10) (1 / 10) 1 (1 / 2) (1 / 2)]"
  have h1: "?rs \<noteq> []" by simp
  have h2: "\<forall>r\<in>set ?rs.
           {''response_completeness'', ''context_utilization'', ''response_efficiency'',
            ''answer_specificity'', ''ground_truth_coverage''} \<subseteq> dom (dr_custom_metrics r)"
    using sample_result_keys by auto
  have h3: "ragas_ok empty_ragas_data = Inr ()"
    by (simp add: ragas_ok_def)
  have c1: "metric_column ''response_completeness'' ?rs = [2 / 10, 4 / 10, 6 / 10]"
    and c2: "metric_column ''context_utilization'' ?rs = [1 / 10, 1 / 10, 1 / 10]"
    and c3: "metric_column ''response_efficiency'' ?rs = [1, 1, 1]"
    and c4: "metric_column ''answer_specificity'' ?rs = [0, 1 / 4, 1 / 2]"
    and c5: "metric_column ''ground_truth_coverage'' ?rs = [1 / 2, 1 / 2, 1 / 2]"
    by (simp_all add: metric_column_def sample_result_def)
  have m2: "arithmetic_mean [1 / 10, 1 / 10, 1 / 10] = 1 / 10"
    and m3: "arithmetic_mean [1, 1, 1] = 1"
    and m4: "arithmetic_mean [0, 1 / 4, 1 / 2] = 1 / 4"
    and m5: "arithmetic_mean [1 / 2, 1 / 2, 1 / 2] = 1 / 2"
    by (simp_all add: arithmetic_mean_def)
  have s2: "population_std [1 / 10, 1 / 10, 1 / 10] = 0"
    unfolding population_std_def m2 by simp
  have s3: "population_std [1, 1, 1] = 0"
    unfolding population_std_def m3 by simp
  have s4: "population_std [0, 1 / 4, 1 / 2] = sqrt (1 / 24)"
    unfolding population_std_def m4 by (simp add: power2_eq_square)
  have s5: "population_std [1 / 2, 1 / 2, 1 / 2] = 0"
    unfolding population_std_def m5 by simp
  have "\<exists>res. run_enhanced_evaluation np_mean np_std ragas_ok empty_ragas_data ?rs = Some res
        \<and> er_custom_metrics res ''avg_response_completeness'' = Some (Finite (4 / 10))
        \<and> er_custom_metrics res ''std_response_completeness'' = Some (Finite (sqrt (2 / 75)))
        \<and> er_custom_metrics res ''avg_context_utilization'' = Some (Finite (1 / 10))
        \<and> er_custom_metrics res ''std_context_utilization'' = Some (Finite 0)
        \<and> er_custom_metrics res ''avg_response_efficiency'' = Some (Finite 1)
        \<and> er_custom_metrics res ''std_response_efficiency'' = Some (Finite 0)
        \<and> er_custom_metrics res ''avg_answer_specificity'' = Some (Finite (1 / 4))
        \<and> er_custom_metrics res ''std_answer_specificity'' = Some (Finite (sqrt (1 / 24)))
        \<and> er_custom_metrics res ''avg_ground_truth_coverage'' = Some (Finite (1 / 2))
        \<and> er_custom_metrics res ''std_ground_truth_coverage'' = Some (Finite 0)
        \<and> dom (er_custom_metrics res)
         = {''avg_response_completeness'', ''std_response_completeness'',
            ''avg_context_utilization'', ''std_context_utilization'',
            ''avg_response_efficiency'', ''std_response_efficiency'',
            ''avg_answer_specificity'', ''std_answer_specificity'',
            ''avg_ground_truth_coverage'', ''std_ground_truth_coverage''}"
    using run_enhanced_evaluation_mean_std
            [where evaluate = ragas_ok and dataset = empty_ragas_data, OF h1 h2 h3, THEN conjunct1]
    unfolding c1 c2 c3 c4 c5 mean_example std_example m2 m3 m4 m5 s2 s3 s4 s5 .
  then obtain res where
    r: "run_enhanced_evaluation np_mean np_std ragas_ok empty_ragas_data ?rs = Some res
        \<and> er_custom_metrics res ''avg_response_completeness'' = Some (Finite (4 / 10))
        \<and> er_custom_metrics res ''std_response_completeness'' = Some (Finite (sqrt (2 / 75)))
        \<and> er_custom_metrics res ''avg_context_utilization'' = Some (Finite (1 / 10))
        \<and> er_custom_metrics res ''std_context_utilization'' = Some (Finite 0)
        \<and> er_custom_metrics res ''avg_response_efficiency'' = Some (Finite 1)
        \<and> er_custom_metrics res ''std_response_efficiency'' = Some (Finite 0)
        \<and> er_custom_metrics res ''avg_answer_specificity'' = Some (Finite (1 / 4))
        \<and> er_custom_metrics res ''std_answer_specificity'' = Some (Finite (sqrt (1 / 24)))
        \<and> er_custom_metrics res ''avg_ground_truth_coverage'' = Some (Finite (1 / 2))
        \<and> er_custom_metrics res ''std_ground_truth_coverage'' = Some (Finite 0)
        \<and> dom (er_custom_metrics res)
         = {''avg_response_completeness'', ''std_response_completeness'',
            ''avg_context_utilization'', ''std_context_utilization'',
            ''avg_response_efficiency'', ''std_response_efficiency'',
            ''avg_answer_specificity'', ''std_answer_specificity'',
            ''avg_ground_truth_coverage'', ''std_ground_truth_coverage''}" ..
  show ?thesis
    using r h1 h3 by (intro conjI exI [of _ res]) simp_all
qed

end
